theory Spec2Isabelle
  imports Complex_Main
begin

section \<open>Python strings\<close>

text \<open>
  A Python \<open>str\<close> is a sequence of Unicode code points, and \<open>len\<close> counts code points, so
  a string is modelled as the list of its code points. \<open>ascii\<close> reads an ASCII literal.
\<close>

type_synonym pystr = "nat list"

definition ascii :: "string \<Rightarrow> pystr" where
  "ascii s = map of_char s"

definition is_ascii :: "pystr \<Rightarrow> bool" where
  "is_ascii s = list_all (\<lambda>c. c < 128) s"

text \<open>
  \<open>str.lower\<close> and \<open>str.capitalize\<close> follow the Unicode case mappings, which are not part
  of the repository. The model carries the mappings of the ASCII letters and the lowercase
  mapping of U+0130 (LATIN CAPITAL LETTER I WITH DOT ABOVE, code point 304), the one code
  point whose lowercase is longer than itself: it lowers to U+0069 U+0307 (105, 775).
  Every other code point is left as it is, so what is proved in general about case is
  stated for ASCII strings.
\<close>

definition lower_cp :: "nat \<Rightarrow> nat list" where
  "lower_cp c =
     (if 65 \<le> c \<and> c \<le> 90 then [c + 32]
      else if c = 304 then [105, 775]
      else [c])"

definition title_cp :: "nat \<Rightarrow> nat list" where
  "title_cp c = (if 97 \<le> c \<and> c \<le> 122 then [c - 32] else [c])"

definition py_lower :: "pystr \<Rightarrow> pystr" where
  "py_lower s = concat (map lower_cp s)"

text \<open>\<open>s.capitalize()\<close>: the first character in title case, the rest lowered.\<close>

fun py_capitalize :: "pystr \<Rightarrow> pystr" where
  "py_capitalize [] = []"
| "py_capitalize (c # cs) = title_cp c @ py_lower cs"

text \<open>
  \<open>s.split(sep)\<close> for a one-character separator: empty segments are kept, and the empty
  string splits into one empty segment.
\<close>

fun py_split :: "nat \<Rightarrow> pystr \<Rightarrow> pystr list" where
  "py_split sep [] = [[]]"
| "py_split sep (c # cs) =
     (if c = sep then [] # py_split sep cs
      else (case py_split sep cs of [] \<Rightarrow> [[c]] | w # ws \<Rightarrow> (c # w) # ws))"

text \<open>\<open>sep.join(xs)\<close>.\<close>

fun py_join :: "pystr \<Rightarrow> pystr list \<Rightarrow> pystr" where
  "py_join sep [] = []"
| "py_join sep [x] = x"
| "py_join sep (x # y # ys) = x @ sep @ py_join sep (y # ys)"

text \<open>\<open>p in s\<close> for strings: \<open>p\<close> occurs in \<open>s\<close> as a contiguous run.\<close>

fun starts_with :: "pystr \<Rightarrow> pystr \<Rightarrow> bool" where
  "starts_with s [] = True"
| "starts_with [] (p # ps) = False"
| "starts_with (c # cs) (p # ps) = (c = p \<and> starts_with cs ps)"

fun py_in :: "pystr \<Rightarrow> pystr \<Rightarrow> bool" where
  "py_in p [] = (p = [])"
| "py_in p (c # cs) = (starts_with (c # cs) p \<or> py_in p cs)"

text \<open>\<open>s.replace(old, new)\<close> for a one-character \<open>old\<close>.\<close>

definition py_replace :: "nat \<Rightarrow> pystr \<Rightarrow> pystr \<Rightarrow> pystr" where
  "py_replace old new s = concat (map (\<lambda>c. if c = old then new else [c]) s)"

text \<open>The decimal rendering of a non-negative integer, as an f-string writes it.\<close>

fun str_nat :: "nat \<Rightarrow> pystr" where
  "str_nat n = (if n < 10 then [48 + n] else str_nat (n div 10) @ [48 + n mod 10])"

declare str_nat.simps [simp del]

section \<open>friendlize\<close>

text \<open>
  \<^verbatim>\<open>
  def friendlize(s: str) -> str:
      split = s.lower().split("_")
      return " ".join([x.capitalize() for x in split])
  \<close>
\<close>

definition friendlize :: "pystr \<Rightarrow> pystr" where
  "friendlize s = py_join [32] (map py_capitalize (py_split 95 (py_lower s)))"

text \<open>
  The friendly naming rule in the words of the specification: split on the underscore,
  capitalize each segment's first letter, lower the rest, join with single spaces.
\<close>

definition capitalize_first_lower_rest :: "pystr \<Rightarrow> pystr" where
  "capitalize_first_lower_rest seg =
     (case seg of [] \<Rightarrow> [] | c # cs \<Rightarrow> title_cp c @ py_lower cs)"

definition friendlize_spec :: "pystr \<Rightarrow> pystr" where
  "friendlize_spec s = py_join [32] (map capitalize_first_lower_rest (py_split 95 s))"

section \<open>Tables\<close>

text \<open>
  A float64 cell is a missing value (NaN), an infinity, or a finite double, which denotes
  a rational number exactly.
\<close>

datatype float64 = NaN | PosInf | NegInf | Finite rat

text \<open>
  A Python value held in a cell. \<open>'o\<close> stands for the objects whose classes are not part
  of the repository (timestamps, for instance).
\<close>

datatype 'o pyobj = PyInt int | PyFloat float64 | PyStr pystr | PyOther 'o

text \<open>
  A column's values together with its dtype: \<open>int64\<close>, \<open>float64\<close>,
  \<open>datetime64[ns, UTC]\<close>, \<open>object\<close>, or any other dtype (bool, naive datetimes, ...).
\<close>

datatype 'o coldata =
    Int64 "int list"
  | Float64 "float64 list"
  | DatetimeUTC "'o list"
  | Object "'o pyobj list"
  | OtherDtype "'o list"

record 'o column =
  col_name :: pystr
  col_data :: "'o coldata"

text \<open>
  A DataFrame: its columns, with distinct labels, and the length of its index, which is
  the length of every column.
\<close>

record 'o dataframe =
  df_columns :: "'o column list"
  df_nrows :: nat

definition shape :: "'o dataframe \<Rightarrow> nat \<times> nat" where
  "shape df = (df_nrows df, length (df_columns df))"

fun cells :: "'o coldata \<Rightarrow> 'o pyobj list" where
  "cells (Int64 xs) = map PyInt xs"
| "cells (Float64 xs) = map PyFloat xs"
| "cells (DatetimeUTC ts) = map PyOther ts"
| "cells (Object vs) = vs"
| "cells (OtherDtype xs) = map PyOther xs"

datatype py_error = IndexError | AttributeError | DatabaseError

section \<open>save\_dfs\_as\_xl\<close>

text \<open>
  A cell format is modelled by its \<open>num_format\<close> pattern; fonts, colours, borders and
  column widths are left out. The style catalog of the export:
  \<^verbatim>\<open>
  STYLEBOOK = {
      "thousands": workbook.add_format({"num_format": "#,###"}),
      "currency": workbook.add_format({"num_format": "$#,##0.00"}),
      "currency_int": workbook.add_format({"num_format": "$#,##0"}),
      "decimal": workbook.add_format({"num_format": "#,##0.00"}),
      "percent": workbook.add_format({"num_format": "0.00%"}),
      "percent_int": workbook.add_format({"num_format": "0%"}),
  }
  \<close>
\<close>

definition STYLEBOOK :: "(pystr \<times> pystr) list" where
  "STYLEBOOK =
     [(ascii ''thousands'', ascii ''#,###''),
      (ascii ''currency'', ascii ''$#,##0.00''),
      (ascii ''currency_int'', ascii ''$#,##0''),
      (ascii ''decimal'', ascii ''#,##0.00''),
      (ascii ''percent'', ascii ''0.00%''),
      (ascii ''percent_int'', ascii ''0%'')]"

text \<open>
  Lines 58 to 67: the display name \<open>bdf.name\<close> and the sheet identifier of table \<open>i\<close>.
  \<open>sheet_names[i]\<close> raises IndexError when \<open>i\<close> is not an index of the list.
\<close>

definition name_table ::
  "pystr list \<Rightarrow> (pystr \<rightharpoonup> pystr) \<Rightarrow> nat \<Rightarrow> py_error + (pystr \<times> pystr)" where
  "name_table sheet_names tab_names i =
     (if sheet_names \<noteq> [] then
        (if i < length sheet_names then
           (let bdf_name = sheet_names ! i in
            case tab_names bdf_name of
              Some tab \<Rightarrow> Inr (bdf_name, take 31 tab)
            | None \<Rightarrow> Inr (bdf_name, take 31 (sheet_names ! i)))
         else Inl IndexError)
      else
        (let bdf_name = ascii ''Sheet'' @ str_nat i in Inr (bdf_name, bdf_name)))"

text \<open>Lines 71 and 72.\<close>

definition tab_name :: "bool \<Rightarrow> pystr \<Rightarrow> pystr" where
  "tab_name friendly_names sheet_name =
     (if friendly_names then friendlize sheet_name else sheet_name)"

text \<open>Lines 103 and 104: the header cells, as (row, column, text).\<close>

definition header_row :: "bool \<Rightarrow> 'o column list \<Rightarrow> (nat \<times> nat \<times> pystr) list" where
  "header_row friendly_names cols =
     map (\<lambda>(col_num, c).
            (2, col_num + 1, if friendly_names then friendlize (col_name c) else col_name c))
         (enumerate 0 cols)"

text \<open>
  Lines 119 to 124: the title cell. \<open>B2:{lastcol}2\<close> is row 1, columns 1 to the number
  of columns, written here as (first row, first column, last row, last column).
\<close>

definition title_cell :: "pystr \<Rightarrow> 'o column list \<Rightarrow> (nat \<times> nat \<times> nat \<times> nat) \<times> pystr" where
  "title_cell bdf_name cols =
     (if length cols > 1 then ((1, 1, 1, length cols), bdf_name)
      else ((1, 1, 1, 1), bdf_name))"

text \<open>
  \<open>x % 1 == 0\<close> on a float64: the remainder of a finite double is computed without
  rounding to zero, so the test holds exactly when the value is a whole number; for an
  infinity and for NaN the remainder is NaN and the comparison is false.
\<close>

fun mod1_eq_zero :: "float64 \<Rightarrow> bool" where
  "mod1_eq_zero (Finite q) = (frac q = 0)"
| "mod1_eq_zero NaN = False"
| "mod1_eq_zero PosInf = False"
| "mod1_eq_zero NegInf = False"

definition fillna :: "float64 \<Rightarrow> float64 list \<Rightarrow> float64 list" where
  "fillna v xs = map (\<lambda>x. if x = NaN then v else x) xs"

definition lookup_directive ::
  "(pystr \<rightharpoonup> (pystr \<rightharpoonup> pystr)) \<Rightarrow> pystr \<Rightarrow> pystr \<Rightarrow> pystr option" where
  "lookup_directive col_format bdf_name cname =
     (case col_format bdf_name of None \<Rightarrow> None | Some m \<Rightarrow> m cname)"

text \<open>
  Lines 158 to 178: the number format of a column; \<open>None\<close> is no format. The catalog
  holds every key the chain looks up, so \<open>map_of STYLEBOOK\<close> is \<open>Some\<close> there.
\<close>

definition num_format_of ::
  "(pystr \<rightharpoonup> (pystr \<rightharpoonup> pystr)) \<Rightarrow> pystr \<Rightarrow> 'o column \<Rightarrow> pystr option" where
  "num_format_of col_format bdf_name c =
     (case lookup_directive col_format bdf_name (col_name c) of
        Some style \<Rightarrow>
          (case map_of STYLEBOOK style of
             Some fmt \<Rightarrow> Some fmt
           | None \<Rightarrow> Some style)
      | None \<Rightarrow>
          if py_in [37] (col_name c) \<or> py_in (ascii ''percent'') (py_lower (col_name c))
          then map_of STYLEBOOK (ascii ''percent'')
          else if py_in (ascii ''income'') (py_lower (col_name c))
                \<or> py_in (ascii ''salary'') (py_lower (col_name c))
                \<or> py_in (ascii ''wage'') (py_lower (col_name c))
          then map_of STYLEBOOK (ascii ''currency'')
          else (case col_data c of
                  Int64 xs \<Rightarrow> map_of STYLEBOOK (ascii ''thousands'')
                | Float64 xs \<Rightarrow>
                    if list_all mod1_eq_zero (fillna (Finite (- 9999)) xs)
                    then map_of STYLEBOOK (ascii ''thousands'')
                    else map_of STYLEBOOK (ascii ''decimal'')
                | DatetimeUTC ts \<Rightarrow> None
                | Object vs \<Rightarrow> None
                | OtherDtype xs \<Rightarrow> None))"

text \<open>
  What the export writes for one table: the worksheet added under \<open>sheet_name\<close>, the
  data block that \<open>to_excel\<close> places at \<open>startrow=3, startcol=1\<close> without header and
  index, the header cells, the title cell, the number format set on each column
  (column index, format), and the arguments of the \<open>autofilter\<close> call
  (first row, first column, last row, last column).
\<close>

record sheet =
  sheet_name :: pystr
  data_origin :: "nat \<times> nat"
  data_shape :: "nat \<times> nat"
  header_cells :: "(nat \<times> nat \<times> pystr) list"
  title_range :: "nat \<times> nat \<times> nat \<times> nat"
  title_text :: pystr
  column_formats :: "(nat \<times> pystr option) list"
  autofilter :: "nat \<times> nat \<times> nat \<times> nat"

text \<open>The rows that hold data on a sheet.\<close>

definition data_rows :: "sheet \<Rightarrow> nat list" where
  "data_rows sh = [fst (data_origin sh) ..< fst (data_origin sh) + fst (data_shape sh)]"

text \<open>
  The body of the loop of lines 58 to 188, for table \<open>i\<close>: the calls the source makes,
  with their arguments. What pandas and the spreadsheet library raise on their own (an
  identifier they refuse, a table whose column is itself labelled \<open>name\<close>, a column
  without values) is not part of it.
\<close>

definition export_table ::
  "(pystr \<rightharpoonup> (pystr \<rightharpoonup> pystr)) \<Rightarrow> pystr list \<Rightarrow> (pystr \<rightharpoonup> pystr) \<Rightarrow> bool \<Rightarrow>
     nat \<Rightarrow> 'o dataframe \<Rightarrow> py_error + sheet" where
  "export_table col_format sheet_names tab_names friendly_names i bdf =
     (case name_table sheet_names tab_names i of
        Inl e \<Rightarrow> Inl e
      | Inr (bdf_name, sheet_name0) \<Rightarrow>
          Inr \<lparr> sheet_name = tab_name friendly_names sheet_name0,
                data_origin = (3, 1),
                data_shape = shape bdf,
                header_cells = header_row friendly_names (df_columns bdf),
                title_range = fst (title_cell bdf_name (df_columns bdf)),
                title_text = snd (title_cell bdf_name (df_columns bdf)),
                column_formats =
                  map (\<lambda>(idx, c). (idx + 1, num_format_of col_format bdf_name c))
                      (enumerate 0 (df_columns bdf)),
                autofilter = (2, 1, fst (shape bdf), snd (shape bdf)) \<rparr>)"

text \<open>
  The loop over \<open>enumerate(list_of_frames)\<close>: an exception ends the export, and the
  workbook is closed (written) only after the last table.
\<close>

fun export_from ::
  "(pystr \<rightharpoonup> (pystr \<rightharpoonup> pystr)) \<Rightarrow> pystr list \<Rightarrow> (pystr \<rightharpoonup> pystr) \<Rightarrow> bool \<Rightarrow>
     nat \<Rightarrow> 'o dataframe list \<Rightarrow> py_error + sheet list" where
  "export_from col_format sheet_names tab_names friendly_names i [] = Inr []"
| "export_from col_format sheet_names tab_names friendly_names i (bdf # rest) =
     (case export_table col_format sheet_names tab_names friendly_names i bdf of
        Inl e \<Rightarrow> Inl e
      | Inr sh \<Rightarrow>
          (case export_from col_format sheet_names tab_names friendly_names (Suc i) rest of
             Inl e \<Rightarrow> Inl e
           | Inr shs \<Rightarrow> Inr (sh # shs)))"

definition save_dfs_as_xl ::
  "'o dataframe list \<Rightarrow> (pystr \<rightharpoonup> (pystr \<rightharpoonup> pystr)) \<Rightarrow> pystr list \<Rightarrow>
     (pystr \<rightharpoonup> pystr) \<Rightarrow> bool \<Rightarrow> py_error + sheet list" where
  "save_dfs_as_xl list_of_frames col_format sheet_names tab_names friendly_names =
     export_from col_format sheet_names tab_names friendly_names 0 list_of_frames"

section \<open>upload\_to\_sql\<close>

text \<open>
  What pandas and Python supply and the repository does not: \<open>str\<close> of a float and of
  another object, \<open>strftime("%Y-%m-%d")\<close> of a timestamp, which of the other objects
  count as missing (\<open>None\<close>, \<open>NaT\<close>), and whether \<open>astype(str)\<close> leaves missing values
  as they are: pandas 3 does, earlier versions turn them into strings like any value.
\<close>

record 'o pylib =
  str_float :: "float64 \<Rightarrow> pystr"
  str_obj :: "'o \<Rightarrow> pystr"
  strftime_ymd :: "'o \<Rightarrow> pystr"
  obj_is_na :: "'o \<Rightarrow> bool"
  astype_str_keeps_na :: bool

text \<open>
  A UTC timestamp to the second, and how pandas renders it: \<open>str\<close> gives
  \<open>YYYY-MM-DD HH:MM:SS+00:00\<close> and \<open>strftime("%Y-%m-%d")\<close> gives \<open>YYYY-MM-DD\<close>.
\<close>

datatype timestamp = Timestamp nat nat nat nat nat nat

definition zero_pad :: "nat \<Rightarrow> nat \<Rightarrow> pystr" where
  "zero_pad width n = replicate (width - length (str_nat n)) 48 @ str_nat n"

fun iso_date :: "timestamp \<Rightarrow> pystr" where
  "iso_date (Timestamp y m d hh mm ss) = zero_pad 4 y @ [45] @ zero_pad 2 m @ [45] @ zero_pad 2 d"

fun str_timestamp :: "timestamp \<Rightarrow> pystr" where
  "str_timestamp (Timestamp y m d hh mm ss) =
     iso_date (Timestamp y m d hh mm ss) @ [32]
       @ zero_pad 2 hh @ [58] @ zero_pad 2 mm @ [58] @ zero_pad 2 ss @ ascii ''+00:00''"

text \<open>
  The library over these timestamps, none of which is missing, for a given rendering of
  floats: as pandas before version 3 behaves, and as pandas 3 does.
\<close>

definition pandas_lib :: "(float64 \<Rightarrow> pystr) \<Rightarrow> timestamp pylib" where
  "pandas_lib render_float =
     \<lparr>str_float = render_float, str_obj = str_timestamp, strftime_ymd = iso_date,
      obj_is_na = (\<lambda>t. False), astype_str_keeps_na = False\<rparr>"


definition str_int :: "int \<Rightarrow> pystr" where
  "str_int k = (if k < 0 then 45 # str_nat (nat (- k)) else str_nat (nat k))"

text \<open>Python's \<open>str(v)\<close>.\<close>

fun py_str :: "'o pylib \<Rightarrow> 'o pyobj \<Rightarrow> pystr" where
  "py_str lib (PyInt k) = str_int k"
| "py_str lib (PyFloat x) = str_float lib x"
| "py_str lib (PyStr s) = s"
| "py_str lib (PyOther x) = str_obj lib x"

text \<open>\<open>pd.isna(v)\<close>.\<close>

fun is_na :: "'o pylib \<Rightarrow> 'o pyobj \<Rightarrow> bool" where
  "is_na lib (PyInt k) = False"
| "is_na lib (PyFloat x) = (x = NaN)"
| "is_na lib (PyStr s) = False"
| "is_na lib (PyOther x) = obj_is_na lib x"

text \<open>
  \<open>series.astype(str)\<close>: a column of strings that is no longer a datetime column; a
  missing value stays as it is where the library keeps missing values.
\<close>

definition astype_str :: "'o pylib \<Rightarrow> 'o coldata \<Rightarrow> 'o coldata" where
  "astype_str lib d =
     Object (map (\<lambda>v. if astype_str_keeps_na lib \<and> is_na lib v then v
                       else PyStr (py_str lib v))
                 (cells d))"

text \<open>
  \<open>series.dt.strftime("%Y-%m-%d")\<close>: the \<open>dt\<close> accessor raises AttributeError on values
  that are not datetimes.
\<close>

fun dt_strftime :: "'o pylib \<Rightarrow> 'o coldata \<Rightarrow> py_error + 'o coldata" where
  "dt_strftime lib (DatetimeUTC ts) = Inr (Object (map (\<lambda>t. PyStr (strftime_ymd lib t)) ts))"
| "dt_strftime lib (Int64 xs) = Inl AttributeError"
| "dt_strftime lib (Float64 xs) = Inl AttributeError"
| "dt_strftime lib (Object vs) = Inl AttributeError"
| "dt_strftime lib (OtherDtype xs) = Inl AttributeError"

text \<open>\<open>df.select_dtypes(include=["datetime64[ns, UTC]"]).columns.tolist()\<close>.\<close>

fun is_datetime_utc :: "'o coldata \<Rightarrow> bool" where
  "is_datetime_utc (DatetimeUTC ts) = True"
| "is_datetime_utc (Int64 xs) = False"
| "is_datetime_utc (Float64 xs) = False"
| "is_datetime_utc (Object vs) = False"
| "is_datetime_utc (OtherDtype xs) = False"

definition datetime_utc_names :: "'o column list \<Rightarrow> pystr list" where
  "datetime_utc_names cols = map col_name (filter (\<lambda>c. is_datetime_utc (col_data c)) cols)"

text \<open>
  Line 276:
  \<^verbatim>\<open>y.replace(" ", "_").replace(":", "").replace("(", "").replace(")", "").lower()\<close>
\<close>

definition normalize_name :: "pystr \<Rightarrow> pystr" where
  "normalize_name y =
     py_lower (py_replace 41 [] (py_replace 40 [] (py_replace 58 [] (py_replace 32 [95] y))))"

definition rename_columns :: "'o column list \<Rightarrow> 'o column list" where
  "rename_columns cols = map (\<lambda>c. c\<lparr>col_name := normalize_name (col_name c)\<rparr>) cols"

text \<open>\<open>df[x] = df[x].astype(str)\<close>, for the columns labelled \<open>x\<close>.\<close>

definition set_astype_str :: "'o pylib \<Rightarrow> pystr \<Rightarrow> 'o column list \<Rightarrow> 'o column list" where
  "set_astype_str lib x cols =
     map (\<lambda>c. if col_name c = x then c\<lparr>col_data := astype_str lib (col_data c)\<rparr> else c) cols"

text \<open>\<open>df[x] = df[x].dt.strftime("%Y-%m-%d")\<close>; the assignment is not made when the right-hand side raises.\<close>

fun set_strftime :: "'o pylib \<Rightarrow> pystr \<Rightarrow> 'o column list \<Rightarrow> py_error + 'o column list" where
  "set_strftime lib x [] = Inr []"
| "set_strftime lib x (c # cs) =
     (if col_name c = x then
        (case dt_strftime lib (col_data c) of
           Inl e \<Rightarrow> Inl e
         | Inr d \<Rightarrow>
             (case set_strftime lib x cs of
                Inl e \<Rightarrow> Inl e
              | Inr r \<Rightarrow> Inr (c\<lparr>col_data := d\<rparr> # r)))
      else
        (case set_strftime lib x cs of
           Inl e \<Rightarrow> Inl e
         | Inr r \<Rightarrow> Inr (c # r)))"

text \<open>
  Lines 285 to 289, the loop over the column labels, on the columns of \<open>df\<close>. The result
  is the columns when the loop ends or raises, and the exception raised, if any.
  \<^verbatim>\<open>
  for x in columns:
      df[x] = df[x].astype(str)
      # adjust datetime
      if x in df.select_dtypes(include=["datetime64[ns, UTC]"]).columns.tolist():
          df[x] = df[x].dt.strftime("%Y-%m-%d")
  \<close>
\<close>

fun adjust_formatting ::
  "'o pylib \<Rightarrow> pystr list \<Rightarrow> 'o column list \<Rightarrow> 'o column list \<times> py_error option" where
  "adjust_formatting lib [] cols = (cols, None)"
| "adjust_formatting lib (x # xs) cols =
     (let cols1 = set_astype_str lib x cols in
      if x \<in> set (datetime_utc_names cols1) then
        (case set_strftime lib x cols1 of
           Inl e \<Rightarrow> (cols1, Some e)
         | Inr cols2 \<Rightarrow> adjust_formatting lib xs cols2)
      else adjust_formatting lib xs cols1)"

text \<open>
  The database. A statement is kept by its parts rather than as SQL text; the calls made
  on the cursor and the connection are recorded in order.
\<close>

datatype 'o stmt =
    DropTable pystr pystr
  | CreateTable pystr pystr "pystr list"
  | Insert pystr pystr "pystr list" "'o pyobj list"

datatype 'o call = Execute "'o stmt" | Commit

datatype msg =
    WritingDataFrame | TableNameLine pystr pystr
  | TryingToDrop | Dropped | NoExistingTable | ExceptionLine
  | CreatingTable | DoneCreating | CouldNotCreate
  | WritingRows nat | Uploading | Progress nat nat | CouldNotUpload nat | DoneAll

text \<open>
  The state the loader works on: the objects the caller's references point to (a
  DataFrame per address), the calls made on the database so far, and the lines printed.
\<close>

record 'o world =
  heap :: "nat \<Rightarrow> 'o dataframe"
  calls :: "'o call list"
  printed :: "msg list"

text \<open>
  Whether a database call raises is decided by the database, from the calls made before
  and the call itself: \<open>raises\<close> is a parameter.
\<close>

definition call_db ::
  "('o call list \<Rightarrow> 'o call \<Rightarrow> bool) \<Rightarrow> 'o call \<Rightarrow> 'o world \<Rightarrow> 'o world \<times> bool" where
  "call_db raises c w = (w\<lparr>calls := calls w @ [c]\<rparr>, raises (calls w) c)"

definition print_msgs :: "msg list \<Rightarrow> 'o world \<Rightarrow> 'o world" where
  "print_msgs ms w = w\<lparr>printed := printed w @ ms\<rparr>"

text \<open>A \<open>try\<close> block of \<open>crsr.execute(...)\<close>, \<open>con.commit()\<close> and a closing print.\<close>

definition try_ddl ::
  "('o call list \<Rightarrow> 'o call \<Rightarrow> bool) \<Rightarrow> msg \<Rightarrow> 'o stmt \<Rightarrow> msg \<Rightarrow> msg \<Rightarrow> 'o world \<Rightarrow> 'o world" where
  "try_ddl raises before s done failed w =
     (let (w1, r1) = call_db raises (Execute s) (print_msgs [before] w) in
      if r1 then print_msgs [failed, ExceptionLine] w1
      else
        (let (w2, r2) = call_db raises Commit w1 in
         if r2 then print_msgs [failed, ExceptionLine] w2
         else print_msgs [done] w2))"

text \<open>Lines 292 to 316.\<close>

definition drop_and_create ::
  "('o call list \<Rightarrow> 'o call \<Rightarrow> bool) \<Rightarrow> pystr \<Rightarrow> pystr \<Rightarrow> pystr list \<Rightarrow> bool \<Rightarrow>
     'o world \<Rightarrow> 'o world" where
  "drop_and_create raises table_name schema columns drop_flag w =
     (if drop_flag then
        try_ddl raises CreatingTable (CreateTable schema table_name columns) DoneCreating CouldNotCreate
          (try_ddl raises TryingToDrop (DropTable schema table_name) Dropped NoExistingTable w)
      else w)"

text \<open>\<open>df.reset_index().iterrows()\<close>, each row as \<open>row[1:].tolist()\<close>.\<close>

definition rows_of :: "'o dataframe \<Rightarrow> 'o pyobj list list" where
  "rows_of df = map (\<lambda>i. map (\<lambda>c. cells (col_data c) ! i) (df_columns df)) [0 ..< df_nrows df]"

text \<open>
  The body of the loop of lines 321 to 333. \<open>index % chunk_print_size\<close> stands inside
  the \<open>try\<close>: with a zero interval it raises ZeroDivisionError, which the handler catches
  before \<open>crsr.execute\<close> is reached.
\<close>

definition upload_row ::
  "('o call list \<Rightarrow> 'o call \<Rightarrow> bool) \<Rightarrow> pystr \<Rightarrow> pystr \<Rightarrow> pystr list \<Rightarrow> int \<Rightarrow> nat \<Rightarrow>
     nat \<Rightarrow> 'o pyobj list \<Rightarrow> 'o world \<Rightarrow> 'o world" where
  "upload_row raises table_name schema columns chunk_print_size len_df index row w =
     (if chunk_print_size = 0 then print_msgs [CouldNotUpload index, ExceptionLine] w
      else
        (let w1 = (if int index mod chunk_print_size = 0
                   then print_msgs [Progress index len_df] w else w);
             (w2, r) = call_db raises (Execute (Insert schema table_name columns row)) w1
         in if r then print_msgs [CouldNotUpload index, ExceptionLine] w2 else w2))"

fun upload_rows ::
  "('o call list \<Rightarrow> 'o call \<Rightarrow> bool) \<Rightarrow> pystr \<Rightarrow> pystr \<Rightarrow> pystr list \<Rightarrow> int \<Rightarrow> nat \<Rightarrow>
     (nat \<times> 'o pyobj list) list \<Rightarrow> 'o world \<Rightarrow> 'o world" where
  "upload_rows raises table_name schema columns chunk_print_size len_df [] w = w"
| "upload_rows raises table_name schema columns chunk_print_size len_df ((index, row) # rest) w =
     upload_rows raises table_name schema columns chunk_print_size len_df rest
       (upload_row raises table_name schema columns chunk_print_size len_df index row w)"

text \<open>
  Lines 274 to 289: the columns of the caller's DataFrame, the object at address \<open>df\<close>,
  are renamed and converted in the object itself.
\<close>

definition prepare_frame :: "'o pylib \<Rightarrow> nat \<Rightarrow> 'o world \<Rightarrow> 'o world \<times> py_error option" where
  "prepare_frame lib df w =
     (let renamed = rename_columns (df_columns (heap w df));
          w1 = w\<lparr>heap := (heap w)(df := (heap w df)\<lparr>df_columns := renamed\<rparr>)\<rparr>;
          columns = map col_name renamed;
          (cols, err) = adjust_formatting lib columns renamed
      in (w1\<lparr>heap := (heap w1)(df := (heap w1 df)\<lparr>df_columns := cols\<rparr>)\<rparr>, err))"

text \<open>
  The whole call. The result is the state it leaves and the exception that leaves it, if
  any; the \<open>commit\<close> of line 335 is outside every \<open>try\<close>.
\<close>

definition upload_to_sql ::
  "('o call list \<Rightarrow> 'o call \<Rightarrow> bool) \<Rightarrow> 'o pylib \<Rightarrow> nat \<Rightarrow> pystr \<Rightarrow> pystr \<Rightarrow> bool \<Rightarrow> int \<Rightarrow>
     'o world \<Rightarrow> 'o world \<times> py_error option" where
  "upload_to_sql raises lib df table_name schema drop_flag chunk_print_size w =
     (case prepare_frame lib df
             (print_msgs [WritingDataFrame, TableNameLine schema table_name] w) of
        (w1, Some e) \<Rightarrow> (w1, Some e)
      | (w1, None) \<Rightarrow>
          (let columns = map col_name (df_columns (heap w1 df));
               w2 = drop_and_create raises table_name schema columns drop_flag w1;
               w3 = print_msgs [WritingRows (df_nrows (heap w2 df)), Uploading] w2;
               w4 = upload_rows raises table_name schema columns chunk_print_size
                      (df_nrows (heap w3 df)) (enumerate 0 (rows_of (heap w3 df))) w3;
               (w5, r) = call_db raises Commit w4
           in if r then (w5, Some DatabaseError) else (print_msgs [DoneAll] w5, None)))"

section \<open>Example inputs\<close>

text \<open>
  A table of three rows and two columns, and the sheet the export writes for it when it
  is the first table, no names are given and friendly naming is on.
\<close>

definition example_frame :: "unit dataframe" where
  "example_frame =
     \<lparr>df_columns =
        [\<lparr>col_name = ascii ''total_pop'', col_data = Int64 [10, 20, 30]\<rparr>,
         \<lparr>col_name = ascii ''area_name'', col_data = Object [PyStr (ascii ''a''), PyStr (ascii ''b''), PyStr (ascii ''c'')]\<rparr>],
      df_nrows = 3\<rparr>"

definition example_sheet :: sheet where
  "example_sheet =
     \<lparr>sheet_name = ascii ''Sheet0'',
      data_origin = (3, 1),
      data_shape = (3, 2),
      header_cells = [(2, 1, ascii ''Total Pop''), (2, 2, ascii ''Area Name'')],
      title_range = (1, 1, 1, 2),
      title_text = ascii ''Sheet0'',
      column_formats = [(1, Some (ascii ''#,###'')), (2, None)],
      autofilter = (2, 1, 3, 2)\<rparr>"

text \<open>
  The 31 characters \<open>"\<close>U+0130\<open>stanbul_population_by_district"\<close>, whose first letter is
  the capital dotted I.
\<close>

definition istanbul :: pystr where
  "istanbul = 304 # ascii ''stanbul_population_by_district''"

text \<open>
  A table with one \<open>datetime64[ns, UTC]\<close> column, \<open>Report Date\<close>, holding 15 January 2024,
  and a table of three rows; a state in which address 0 holds the one or the other and
  nothing has been called or printed.
\<close>

definition dated_frame :: "timestamp dataframe" where
  "dated_frame =
     \<lparr>df_columns =
        [\<lparr>col_name = ascii ''Report Date'',
          col_data = DatetimeUTC [Timestamp 2024 1 15 0 0 0]\<rparr>],
      df_nrows = 1\<rparr>"

definition three_rows :: "timestamp dataframe" where
  "three_rows =
     \<lparr>df_columns =
        [\<lparr>col_name = ascii ''Area (Name)'',
          col_data = Object [PyStr (ascii ''a''), PyStr (ascii ''b''), PyStr (ascii ''c'')]\<rparr>,
         \<lparr>col_name = ascii ''Count'', col_data = Int64 [7, 8, 9]\<rparr>],
      df_nrows = 3\<rparr>"



definition world_with :: "'o dataframe \<Rightarrow> 'o world" where
  "world_with frame = \<lparr>heap = (\<lambda>a. frame), calls = [], printed = []\<rparr>"

text \<open>A database that refuses the row whose first value is \<open>b\<close> and nothing else.\<close>

definition refuses_b :: "timestamp call list \<Rightarrow> timestamp call \<Rightarrow> bool" where
  "refuses_b history c =
     (case c of
        Execute (Insert schema table_name columns row) \<Rightarrow> take 1 row = [PyStr (ascii ''b'')]
      | Execute (DropTable schema table_name) \<Rightarrow> False
      | Execute (CreateTable schema table_name columns) \<Rightarrow> False
      | Commit \<Rightarrow> False)"

section \<open>Lemmas about strings\<close>

lemma py_split_not_Nil: "py_split sep s \<noteq> []"
  by (induction s) (auto split: list.splits)

lemma py_lower_Nil: "py_lower [] = []"
  by (simp add: py_lower_def)

lemma py_lower_Cons: "py_lower (c # cs) = lower_cp c @ py_lower cs"
  by (simp add: py_lower_def)

lemma is_ascii_Cons: "is_ascii (c # cs) \<longleftrightarrow> c < 128 \<and> is_ascii cs"
  by (simp add: is_ascii_def)

lemma py_lower_idem: "is_ascii s \<Longrightarrow> py_lower (py_lower s) = py_lower s"
  by (induction s) (auto simp: py_lower_Nil py_lower_Cons is_ascii_Cons lower_cp_def)


lemma py_split_Cons_sep: "py_split sep (sep # cs) = [] # py_split sep cs"
  by simp

lemma py_split_Cons_other:
  "c \<noteq> sep \<Longrightarrow> py_split sep (c # cs) = (c # hd (py_split sep cs)) # tl (py_split sep cs)"
  using py_split_not_Nil [of sep cs] by (cases "py_split sep cs") auto

lemma py_split_lower:
  "is_ascii s \<Longrightarrow> py_split 95 (py_lower s) = map py_lower (py_split 95 s)"
proof (induction s)
  case Nil
  show ?case by (simp add: py_lower_Nil)
next
  case (Cons c cs)
  then have c: "c < 128" and IH: "py_split 95 (py_lower cs) = map py_lower (py_split 95 cs)"
    by (simp_all add: is_ascii_Cons)
  obtain w ws where sp: "py_split 95 cs = w # ws"
    using py_split_not_Nil [of 95 cs] by (cases "py_split 95 cs") auto
  show ?case
    using c IH sp by (auto simp: py_lower_Nil py_lower_Cons lower_cp_def)
qed

lemma is_ascii_split: "is_ascii s \<Longrightarrow> list_all is_ascii (py_split sep s)"
  by (induction s) (auto simp: is_ascii_Cons is_ascii_def split: list.splits)

lemma capitalize_lower:
  "is_ascii seg \<Longrightarrow> py_capitalize (py_lower seg) = capitalize_first_lower_rest seg"
proof (cases seg)
  case Nil
  then show ?thesis by (simp add: py_lower_Nil capitalize_first_lower_rest_def)
next
  case (Cons c cs)
  assume "is_ascii seg"
  with Cons have c: "c < 128" and cs: "is_ascii cs" by (simp_all add: is_ascii_Cons)
  have "py_capitalize (lower_cp c @ py_lower cs) = title_cp c @ py_lower (py_lower cs)"
    using c by (auto simp: lower_cp_def title_cp_def)
  then show ?thesis
    using Cons cs by (simp add: py_lower_Cons py_lower_idem capitalize_first_lower_rest_def)
qed

lemma friendlize_refines_spec: "is_ascii s \<Longrightarrow> friendlize s = friendlize_spec s"
proof -
  assume a: "is_ascii s"
  have "map py_capitalize (map py_lower (py_split 95 s)) =
        map capitalize_first_lower_rest (py_split 95 s)"
    using is_ascii_split [OF a, of 95]
    by (simp add: list_all_iff capitalize_lower)
  then show ?thesis
    by (simp only: friendlize_def friendlize_spec_def py_split_lower [OF a])
qed

lemma length_lower_ascii: "is_ascii s \<Longrightarrow> length (py_lower s) = length s"
  by (induction s) (auto simp: py_lower_Nil py_lower_Cons is_ascii_Cons lower_cp_def)

lemma length_capitalize_ascii: "is_ascii s \<Longrightarrow> length (py_capitalize s) = length s"
  by (cases s) (auto simp: is_ascii_Cons title_cp_def length_lower_ascii)

lemma length_join_Cons:
  "length (py_join [x] ((a # w) # ws)) = Suc (length (py_join [x] (w # ws)))"
  by (cases ws) simp_all

lemma length_join_split:
  "length (py_join [x] (py_split sep s)) = length s"
proof (induction s)
  case Nil
  show ?case by simp
next
  case (Cons c cs)
  obtain w ws where sp: "py_split sep cs = w # ws"
    using py_split_not_Nil [of sep cs] by (cases "py_split sep cs") auto
  show ?case
    using Cons sp by (auto simp: length_join_Cons)
qed

lemma length_join_map:
  "list_all (\<lambda>w. length (f w) = length w) ws \<Longrightarrow>
     length (py_join sep (map f ws)) = length (py_join sep ws)"
  by (induction sep ws rule: py_join.induct) simp_all

lemma length_friendlize_ascii: "is_ascii s \<Longrightarrow> length (friendlize s) = length s"
proof -
  assume a: "is_ascii s"
  have la: "is_ascii (py_lower s)"
    using a by (induction s) (auto simp: py_lower_Nil py_lower_Cons is_ascii_Cons lower_cp_def is_ascii_def)
  have "list_all is_ascii (py_split 95 (py_lower s))"
    using la by (rule is_ascii_split)
  then have "list_all (\<lambda>w. length (py_capitalize w) = length w) (py_split 95 (py_lower s))"
    by (simp add: list_all_iff length_capitalize_ascii)
  then have "length (friendlize s) = length (py_join [32] (py_split 95 (py_lower s)))"
    unfolding friendlize_def by (rule length_join_map)
  then show ?thesis
    by (simp add: length_join_split length_lower_ascii [OF a])
qed


section \<open>The friendly naming rule\<close>

lemmas eval_str = ascii_def friendlize_def py_lower_def lower_cp_def title_cp_def

text \<open>
  Claim C6. \<open>friendlize\<close> lowers its input, splits it on underscores, capitalizes each
  segment and joins the segments with single spaces: on ASCII input it is the rule of
  the specification. \<open>friendlize("median_income")\<close> is \<open>"Median Income"\<close> and
  \<open>friendlize("Median Income")\<close> is \<open>"Median income"\<close>, so applying it twice differs from
  applying it once.
\<close>

theorem friendlize_examples:
  "friendlize (ascii ''median_income'') = ascii ''Median Income''
   \<and> friendlize (ascii ''Median Income'') = ascii ''Median income''
   \<and> friendlize (friendlize (ascii ''median_income'')) \<noteq> friendlize (ascii ''median_income'')
   \<and> (\<forall>s. is_ascii s \<longrightarrow> friendlize s = friendlize_spec s)"
proof -
  have a: "friendlize (ascii ''median_income'') = ascii ''Median Income''"
    by (simp add: eval_str)
  have b: "friendlize (ascii ''Median Income'') = ascii ''Median income''"
    by (simp add: eval_str)
  have c: "ascii ''Median income'' \<noteq> ascii ''Median Income''"
    by (simp add: ascii_def)
  show ?thesis
    using a b c by (simp add: friendlize_refines_spec)
qed

text \<open>The specification's example \<open>median_hh_income\<close>, through the theorem.\<close>

theorem friendlize_examples_witness:
  "is_ascii (ascii ''median_hh_income'')
   \<and> friendlize_spec (ascii ''median_hh_income'') = ascii ''Median Hh Income''"
proof -
  have a: "is_ascii (ascii ''median_hh_income'')"
    by (simp add: ascii_def is_ascii_def)
  have b: "friendlize (ascii ''median_hh_income'') = ascii ''Median Hh Income''"
    by (simp add: eval_str)
  show ?thesis
    using friendlize_examples a b by simp
qed

section \<open>The number format of a column\<close>

lemma stylebook_percent: "map_of STYLEBOOK (ascii ''percent'') = Some (ascii ''0.00%'')"
  by (simp add: STYLEBOOK_def ascii_def)
lemma stylebook_currency: "map_of STYLEBOOK (ascii ''currency'') = Some (ascii ''$#,##0.00'')"
  by (simp add: STYLEBOOK_def ascii_def)
lemma stylebook_thousands: "map_of STYLEBOOK (ascii ''thousands'') = Some (ascii ''#,###'')"
  by (simp add: STYLEBOOK_def ascii_def)
lemma stylebook_decimal: "map_of STYLEBOOK (ascii ''decimal'') = Some (ascii ''#,##0.00'')"
  by (simp add: STYLEBOOK_def ascii_def)

text \<open>
  Claim C1. When the override mapping holds a directive for the table's display name and
  the column's name, the column's format is the catalog pattern the directive names,
  whatever the column's name, dtype and values; a directive that names no catalog style
  is used as the pattern itself.
\<close>

theorem override_takes_precedence:
  assumes "col_format bdf_name = Some m" and "m (col_name c) = Some style"
  shows "(\<forall>fmt. map_of STYLEBOOK style = Some fmt \<longrightarrow>
            num_format_of col_format bdf_name c = Some fmt)
         \<and> (map_of STYLEBOOK style = None \<longrightarrow>
            num_format_of col_format bdf_name c = Some style)"
  using assms by (simp add: num_format_of_def lookup_directive_def)

text \<open>
  The override \<open>{"Sales": {"count": "percent"}}\<close> on an integer column \<open>count\<close> gives the
  percent pattern, and a literal \<open>"0.0"\<close> gives itself.
\<close>

theorem override_takes_precedence_witness:
  "num_format_of [ascii ''Sales'' \<mapsto> [ascii ''count'' \<mapsto> ascii ''percent'']] (ascii ''Sales'')
      \<lparr>col_name = ascii ''count'', col_data = Int64 [1, 2, 3]\<rparr> = Some (ascii ''0.00%'')
   \<and> num_format_of [ascii ''Sales'' \<mapsto> [ascii ''count'' \<mapsto> ascii ''0.0'']] (ascii ''Sales'')
      \<lparr>col_name = ascii ''count'', col_data = Int64 [1, 2, 3]\<rparr> = Some (ascii ''0.0'')"
proof -
  have n: "map_of STYLEBOOK (ascii ''0.0'') = None"
    by (simp add: STYLEBOOK_def ascii_def)
  have a: "num_format_of [ascii ''Sales'' \<mapsto> [ascii ''count'' \<mapsto> ascii ''percent'']] (ascii ''Sales'')
      \<lparr>col_name = ascii ''count'', col_data = Int64 [1, 2, 3]\<rparr> = Some (ascii ''0.00%'')"
    using override_takes_precedence
      [of "[ascii ''Sales'' \<mapsto> [ascii ''count'' \<mapsto> ascii ''percent'']]" "ascii ''Sales''"
          "[ascii ''count'' \<mapsto> ascii ''percent'']"
          "\<lparr>col_name = ascii ''count'', col_data = Int64 [1, 2, 3]\<rparr>" "ascii ''percent''"]
      stylebook_percent
    by simp
  have b: "num_format_of [ascii ''Sales'' \<mapsto> [ascii ''count'' \<mapsto> ascii ''0.0'']] (ascii ''Sales'')
      \<lparr>col_name = ascii ''count'', col_data = Int64 [1, 2, 3]\<rparr> = Some (ascii ''0.0'')"
    using override_takes_precedence
      [of "[ascii ''Sales'' \<mapsto> [ascii ''count'' \<mapsto> ascii ''0.0'']]" "ascii ''Sales''"
          "[ascii ''count'' \<mapsto> ascii ''0.0'']"
          "\<lparr>col_name = ascii ''count'', col_data = Int64 [1, 2, 3]\<rparr>" "ascii ''0.0''"]
      n
    by simp
  show ?thesis using a b by simp
qed

lemma mod1_fillna:
  "mod1_eq_zero (if x = NaN then Finite (- 9999) else x) \<longleftrightarrow>
     x = NaN \<or> (\<exists>k::int. x = Finite (of_int k))"
proof (cases x)
  case (Finite q)
  have "frac q = 0 \<longleftrightarrow> (\<exists>k::int. q = of_int k)"
    by (auto simp: frac_eq_0_iff Ints_def)
  with Finite show ?thesis by simp
next
  case NaN
  have "frac (- 9999 :: rat) = 0"
    using frac_of_int [of "- 9999", where ?'a = rat] by simp
  with NaN show ?thesis by simp
qed simp_all

text \<open>
  Claim C5. For a float64 column with no directive and no percent or currency word in
  its name: when every value is missing or a whole number the format is the
  \<open>thousands\<close> pattern, and when some value has a fractional part it is the \<open>decimal\<close>
  pattern.
\<close>

theorem float_column_format:
  assumes "lookup_directive col_format bdf_name (col_name c) = None"
    and "\<not> py_in [37] (col_name c)"
    and "\<not> py_in (ascii ''percent'') (py_lower (col_name c))"
    and "\<not> py_in (ascii ''income'') (py_lower (col_name c))"
    and "\<not> py_in (ascii ''salary'') (py_lower (col_name c))"
    and "\<not> py_in (ascii ''wage'') (py_lower (col_name c))"
    and "col_data c = Float64 xs"
  shows "((\<forall>x \<in> set xs. x = NaN \<or> (\<exists>k::int. x = Finite (of_int k))) \<longrightarrow>
            num_format_of col_format bdf_name c = Some (ascii ''#,###''))
       \<and> ((\<exists>x \<in> set xs. \<exists>q. x = Finite q \<and> frac q \<noteq> 0) \<longrightarrow>
            num_format_of col_format bdf_name c = Some (ascii ''#,##0.00''))"
proof -
  have all: "list_all mod1_eq_zero (fillna (Finite (- 9999)) xs) \<longleftrightarrow>
      (\<forall>x \<in> set xs. x = NaN \<or> (\<exists>k::int. x = Finite (of_int k)))"
    by (induction xs) (simp_all add: fillna_def mod1_fillna)
  have frac: "\<And>x q. x = Finite q \<Longrightarrow> frac q \<noteq> 0 \<Longrightarrow>
      \<not> (x = NaN \<or> (\<exists>k::int. x = Finite (of_int k)))"
    by auto
  have nf: "num_format_of col_format bdf_name c =
      (if list_all mod1_eq_zero (fillna (Finite (- 9999)) xs)
       then Some (ascii ''#,###'') else Some (ascii ''#,##0.00''))"
    using assms by (simp add: num_format_of_def stylebook_thousands stylebook_decimal)
  show ?thesis
    unfolding nf all using frac by auto
qed


text \<open>The columns \<open>[1.0, nan, 3.0]\<close> and \<open>[1.0, 2.5]\<close>.\<close>

theorem float_column_format_witness:
  "num_format_of Map.empty (ascii ''Sheet0'')
      \<lparr>col_name = ascii ''population'',
       col_data = Float64 [Finite 1, NaN, Finite 3]\<rparr> = Some (ascii ''#,###'')
   \<and> num_format_of Map.empty (ascii ''Sheet0'')
      \<lparr>col_name = ascii ''population'',
       col_data = Float64 [Finite 1, Finite (5 / 2)]\<rparr> = Some (ascii ''#,##0.00'')"
proof -
  let ?n = "ascii ''population''"
  let ?c1 = "\<lparr>col_name = ?n, col_data = Float64 [Finite 1, NaN, Finite 3]\<rparr>"
  let ?c2 = "\<lparr>col_name = ?n, col_data = Float64 [Finite 1, Finite (5 / 2)]\<rparr>"
  have p: "\<not> py_in [37] ?n" "\<not> py_in (ascii ''percent'') (py_lower ?n)"
    "\<not> py_in (ascii ''income'') (py_lower ?n)" "\<not> py_in (ascii ''salary'') (py_lower ?n)"
    "\<not> py_in (ascii ''wage'') (py_lower ?n)"
    by (simp_all add: ascii_def py_lower_def lower_cp_def)
  have w1: "Finite 1 = Finite (rat_of_int 1)" "Finite 3 = Finite (rat_of_int 3)"
    by simp_all
  have whole: "\<forall>x \<in> set [Finite 1, NaN, Finite 3]. x = NaN \<or> (\<exists>k::int. x = Finite (of_int k))"
    using w1 by (auto simp del: of_int_1 of_int_numeral)
  have f: "frac (5 / 2 :: rat) \<noteq> 0"
    by code_simp
  have part: "\<exists>x \<in> set [Finite 1, Finite (5 / 2)]. \<exists>q. x = Finite q \<and> frac q \<noteq> 0"
  proof (rule bexI [of _ "Finite (5 / 2)"])
    show "\<exists>q. Finite (5 / 2) = Finite q \<and> frac q \<noteq> 0"
      using f by blast
    show "Finite (5 / 2) \<in> set [Finite 1, Finite (5 / 2)]"
      by simp
  qed
  have a: "num_format_of Map.empty (ascii ''Sheet0'') ?c1 = Some (ascii ''#,###'')"
    using float_column_format
      [of Map.empty "ascii ''Sheet0''" ?c1 "[Finite 1, NaN, Finite 3]"] p whole
    by (simp add: lookup_directive_def)
  have b: "num_format_of Map.empty (ascii ''Sheet0'') ?c2 = Some (ascii ''#,##0.00'')"
  proof -
    have d2: "lookup_directive Map.empty (ascii ''Sheet0'') (col_name ?c2) = None"
      by (simp add: lookup_directive_def)
    have p2: "\<not> py_in [37] (col_name ?c2)"
      "\<not> py_in (ascii ''percent'') (py_lower (col_name ?c2))"
      "\<not> py_in (ascii ''income'') (py_lower (col_name ?c2))"
      "\<not> py_in (ascii ''salary'') (py_lower (col_name ?c2))"
      "\<not> py_in (ascii ''wage'') (py_lower (col_name ?c2))"
      using p by simp_all
    have c2: "col_data ?c2 = Float64 [Finite 1, Finite (5 / 2)]"
      by simp
    from float_column_format [OF d2 p2 c2] part show ?thesis
      by blast
  qed
  show ?thesis using a b by simp
qed

section \<open>The sheet of a table\<close>

lemmas eval_export = export_table_def name_table_def tab_name_def header_row_def
  title_cell_def shape_def num_format_of_def lookup_directive_def enumerate_eq_zip
  example_frame_def example_sheet_def Let_def

lemma upt_2: "[0..<2] = [0, Suc 0]"
  by (simp add: upt_rec)

lemma str_nat_0: "str_nat 0 = [48]"
  by (simp add: str_nat.simps)

lemma export_example_auto:
  "export_table Map.empty [] Map.empty True 0 example_frame = Inr example_sheet"
  by (simp add: eval_export eval_str upt_2 str_nat_0 STYLEBOOK_def)

text \<open>
  Claim C2. The autofilter is to run from the header row to the last data row, row
  \<open>2 + number of rows\<close>. The call passes \<open>bdf.shape[0]\<close>, the number of rows, as its
  last row: for the example table of three rows the data stands in rows 3, 4 and 5 and
  the autofilter call names rows 2 to 3. The columns, 1 to \<open>bdf.shape[1]\<close>, are the data
  columns.
\<close>

theorem autofilter_stops_at_row_count:
  "export_table Map.empty [] Map.empty True 0 example_frame = Inr example_sheet
   \<and> autofilter example_sheet = (2, 1, 3, 2)
   \<and> data_rows example_sheet = [3, 4, 5]"
  by (simp add: export_example_auto) (simp add: example_sheet_def data_rows_def upt_rec)

text \<open>The same for every table.\<close>

lemma export_table_layout:
  assumes "export_table col_format sheet_names tab_names friendly_names i bdf = Inr sh"
  shows "autofilter sh = (2, 1, df_nrows bdf, length (df_columns bdf))"
    and "data_rows sh = [3 ..< 3 + df_nrows bdf]"
  using assms
  by (auto simp: export_table_def shape_def data_rows_def split: sum.splits prod.splits)

text \<open>
  Claim C3, as stated, fails: with friendly naming on, a table named \<open>median_income\<close>
  whose identifier override is \<open>mi_tab\<close> gets the title \<open>median_income\<close>, which is not
  its friendlified name, and the identifier \<open>Mi Tab\<close>, the friendlified override.
\<close>

theorem title_and_override_counterexample:
  "export_table Map.empty [ascii ''median_income''] [ascii ''median_income'' \<mapsto> ascii ''mi_tab'']
      True 0 example_frame
     = Inr (example_sheet\<lparr>sheet_name := ascii ''Mi Tab'', title_text := ascii ''median_income''\<rparr>)
   \<and> ascii ''median_income'' \<noteq> friendlize (ascii ''median_income'')
   \<and> ascii ''Mi Tab'' \<noteq> ascii ''mi_tab''"
  by (simp add: eval_export eval_str upt_2 STYLEBOOK_def)

lemma header_texts:
  "map (\<lambda>(r, c, text). text) (header_row True cols) = map (\<lambda>c. friendlize (col_name c)) cols"
proof -
  have "map (\<lambda>c. friendlize (col_name c)) (map snd (enumerate 0 cols)) =
        map (\<lambda>p. friendlize (col_name (snd p))) (enumerate 0 cols)"
    by (simp only: map_map comp_def)
  then have "map (\<lambda>p. friendlize (col_name (snd p))) (enumerate 0 cols) =
        map (\<lambda>c. friendlize (col_name c)) cols"
    by (simp only: map_snd_enumerate)
  then show ?thesis
    by (simp add: header_row_def split_def comp_def)
qed

text \<open>
  Claim C3, amended. With friendly naming on, every column header is the friendlified
  column name, and the sheet identifier is friendlified whether it comes from the
  identifier override, from the display name (either cut to 31 characters first) or
  from the automatic name; the title is the display name as given.
\<close>

theorem friendly_names_in_sheet:
  assumes "export_table col_format sheet_names tab_names True i bdf = Inr sh"
  shows "map (\<lambda>(r, c, text). text) (header_cells sh) =
           map (\<lambda>c. friendlize (col_name c)) (df_columns bdf)
       \<and> (sheet_names \<noteq> [] \<longrightarrow>
            title_text sh = sheet_names ! i
            \<and> sheet_name sh =
                friendlize (take 31 (case tab_names (sheet_names ! i) of
                                       Some tab \<Rightarrow> tab | None \<Rightarrow> sheet_names ! i)))
       \<and> (sheet_names = [] \<longrightarrow>
            title_text sh = ascii ''Sheet'' @ str_nat i
            \<and> sheet_name sh = friendlize (ascii ''Sheet'' @ str_nat i))"
proof -
  obtain bdf_name sheet_name0 where
    n: "name_table sheet_names tab_names i = Inr (bdf_name, sheet_name0)"
    using assms by (auto simp: export_table_def split: sum.splits)
  from assms n have h: "header_cells sh = header_row True (df_columns bdf)"
    and t: "title_text sh = bdf_name"
    and s: "sheet_name sh = friendlize sheet_name0"
    by (auto simp: export_table_def tab_name_def title_cell_def)
  from n have a: "sheet_names \<noteq> [] \<longrightarrow> bdf_name = sheet_names ! i
      \<and> sheet_name0 = take 31 (case tab_names (sheet_names ! i) of
                                  Some tab \<Rightarrow> tab | None \<Rightarrow> sheet_names ! i)"
    by (auto simp: name_table_def Let_def split: if_splits option.splits)
  from n have b: "sheet_names = [] \<longrightarrow> bdf_name = ascii ''Sheet'' @ str_nat i
      \<and> sheet_name0 = ascii ''Sheet'' @ str_nat i"
    by (auto simp: name_table_def Let_def split: if_splits)
  show ?thesis
    using h t s a b by (simp add: header_texts)
qed

text \<open>The theorem at the overridden table and at the automatically named one.\<close>

theorem friendly_names_in_sheet_witness:
  "map (\<lambda>(r, c, text). text) (header_cells example_sheet) =
     map (\<lambda>c. friendlize (col_name c)) (df_columns example_frame)
   \<and> title_text (example_sheet\<lparr>sheet_name := ascii ''Mi Tab'', title_text := ascii ''median_income''\<rparr>)
       = ascii ''median_income''
   \<and> sheet_name (example_sheet\<lparr>sheet_name := ascii ''Mi Tab'', title_text := ascii ''median_income''\<rparr>)
       = friendlize (take 31 (ascii ''mi_tab''))
   \<and> title_text example_sheet = ascii ''Sheet'' @ str_nat 0
   \<and> sheet_name example_sheet = friendlize (ascii ''Sheet'' @ str_nat 0)"
proof -
  have e1: "export_table Map.empty [ascii ''median_income''] [ascii ''median_income'' \<mapsto> ascii ''mi_tab'']
      True 0 example_frame
     = Inr (example_sheet\<lparr>sheet_name := ascii ''Mi Tab'', title_text := ascii ''median_income''\<rparr>)"
    by (simp add: eval_export eval_str upt_2 STYLEBOOK_def)
  show ?thesis
    using friendly_names_in_sheet [OF e1] friendly_names_in_sheet [OF export_example_auto]
    by simp
qed

text \<open>
  Claim C7. The identifier is cut to 31 characters before it is friendlified, not after,
  and friendlification can lengthen it: the 31 characters of \<open>istanbul\<close> give an
  identifier of 32 characters.
\<close>

theorem friendlized_identifier_exceeds_31:
  "length istanbul = 31
   \<and> export_table Map.empty [istanbul] Map.empty True 0 example_frame
     = Inr (example_sheet\<lparr>sheet_name := 73 # 775 # ascii ''stanbul Population By District'',
                          title_text := istanbul\<rparr>)
   \<and> length (73 # 775 # ascii ''stanbul Population By District'') = 32"
  by (simp add: eval_export eval_str upt_2 STYLEBOOK_def istanbul_def)


text \<open>
  For ASCII names friendlification keeps the length, so the identifier of a named table
  stays within 31 characters.
\<close>

lemma is_ascii_take: "is_ascii s \<Longrightarrow> is_ascii (take n s)"
  by (auto simp: is_ascii_def list_all_iff dest: in_set_takeD)

lemma sheet_name_ascii_le_31:
  assumes "export_table col_format sheet_names tab_names friendly_names i bdf = Inr sh"
    and "sheet_names \<noteq> []"
    and "is_ascii (case tab_names (sheet_names ! i) of Some tab \<Rightarrow> tab | None \<Rightarrow> sheet_names ! i)"
  shows "length (sheet_name sh) \<le> 31"
proof -
  let ?src = "case tab_names (sheet_names ! i) of Some tab \<Rightarrow> tab | None \<Rightarrow> sheet_names ! i"
  from assms(1,2) have s: "sheet_name sh = tab_name friendly_names (take 31 ?src)"
    by (auto simp: export_table_def name_table_def Let_def split: if_splits option.splits)
  have "length (friendlize (take 31 ?src)) = length (take 31 ?src)"
    using assms(3) by (intro length_friendlize_ascii is_ascii_take)
  then show ?thesis
    using s by (simp add: tab_name_def)
qed

section \<open>Fewer names than tables\<close>

lemma name_table_named:
  "sheet_names \<noteq> [] \<Longrightarrow> i < length sheet_names \<Longrightarrow>
     \<exists>r. name_table sheet_names tab_names i = Inr r"
  by (simp add: name_table_def Let_def split: option.splits)

lemma export_table_named:
  "sheet_names \<noteq> [] \<Longrightarrow> i < length sheet_names \<Longrightarrow>
     \<exists>sh. export_table col_format sheet_names tab_names friendly_names i bdf = Inr sh"
  using name_table_named [of sheet_names i tab_names]
  by (auto simp: export_table_def split: prod.splits)

lemma export_table_unnamed:
  "sheet_names \<noteq> [] \<Longrightarrow> length sheet_names \<le> i \<Longrightarrow>
     export_table col_format sheet_names tab_names friendly_names i bdf = Inl IndexError"
  by (simp add: export_table_def name_table_def)

lemma export_from_short:
  "sheet_names \<noteq> [] \<Longrightarrow> i \<le> length sheet_names \<Longrightarrow> length sheet_names < i + length frames \<Longrightarrow>
     export_from col_format sheet_names tab_names friendly_names i frames = Inl IndexError"
proof (induction frames arbitrary: i)
  case Nil
  then show ?case by simp
next
  case (Cons bdf rest)
  show ?case
  proof (cases "i < length sheet_names")
    case True
    obtain sh where sh: "export_table col_format sheet_names tab_names friendly_names i bdf = Inr sh"
      using export_table_named [OF Cons.prems(1) True] by blast
    have "export_from col_format sheet_names tab_names friendly_names (Suc i) rest = Inl IndexError"
      using Cons.prems True by (intro Cons.IH) simp_all
    with sh show ?thesis by simp
  next
    case False
    then have "export_table col_format sheet_names tab_names friendly_names i bdf = Inl IndexError"
      using Cons.prems(1) by (intro export_table_unnamed) simp_all
    then show ?thesis by simp
  qed
qed

text \<open>
  Claim C9. When a non-empty list of names is shorter than the list of tables, every
  table that has a name gets its sheet, the first table without one raises IndexError,
  and the export ends with that exception: the remaining tables are not named
  automatically. What the spreadsheet library itself may raise is outside the model.
\<close>

theorem short_sheet_names_raise_IndexError:
  assumes "sheet_names \<noteq> []" and "length sheet_names < length list_of_frames"
  shows "save_dfs_as_xl list_of_frames col_format sheet_names tab_names friendly_names
           = Inl IndexError
       \<and> (\<forall>i < length sheet_names. \<exists>sh.
            export_table col_format sheet_names tab_names friendly_names i (list_of_frames ! i)
              = Inr sh)
       \<and> export_table col_format sheet_names tab_names friendly_names (length sheet_names)
            (list_of_frames ! length sheet_names) = Inl IndexError"
  using assms
  by (simp add: save_dfs_as_xl_def export_from_short export_table_named export_table_unnamed)

text \<open>Two tables and one name.\<close>

theorem short_sheet_names_raise_IndexError_witness:
  "save_dfs_as_xl [example_frame, example_frame] Map.empty [ascii ''first''] Map.empty True
     = Inl IndexError
   \<and> export_table Map.empty [ascii ''first''] Map.empty True 1 example_frame = Inl IndexError"
proof -
  have a: "[ascii ''first''] \<noteq> []"
    by simp
  have b: "length [ascii ''first''] < length [example_frame, example_frame]"
    by simp
  show ?thesis
    using short_sheet_names_raise_IndexError [OF a b, of Map.empty Map.empty True] by simp
qed

section \<open>The loader and the caller's table\<close>

lemma astype_str_idem: "astype_str lib (astype_str lib d) = astype_str lib d"
  by (simp add: astype_str_def)

lemma not_datetime_after_astype:
  "x \<notin> set (datetime_utc_names (set_astype_str lib x cols))"
  by (induction cols) (auto simp: datetime_utc_names_def set_astype_str_def astype_str_def)

lemma set_astype_str_map:
  "map (\<lambda>c. if col_name c \<in> set xs then c\<lparr>col_data := astype_str lib (col_data c)\<rparr> else c)
       (set_astype_str lib x cols) =
   map (\<lambda>c. if col_name c \<in> set (x # xs) then c\<lparr>col_data := astype_str lib (col_data c)\<rparr> else c)
       cols"
  by (induction cols) (auto simp: set_astype_str_def astype_str_idem)

lemma adjust_formatting_eq:
  "adjust_formatting lib xs cols =
     (map (\<lambda>c. if col_name c \<in> set xs then c\<lparr>col_data := astype_str lib (col_data c)\<rparr> else c)
          cols, None)"
proof (induction xs arbitrary: cols)
  case Nil
  show ?case by (simp add: map_idI)
next
  case (Cons x xs)
  have "adjust_formatting lib (x # xs) cols = adjust_formatting lib xs (set_astype_str lib x cols)"
    using not_datetime_after_astype [of x lib cols] by (simp add: Let_def)
  then show ?case
    by (simp only: Cons.IH set_astype_str_map)
qed

lemma adjust_all_columns:
  "adjust_formatting lib (map col_name cols) cols =
     (map (\<lambda>c. c\<lparr>col_data := astype_str lib (col_data c)\<rparr>) cols, None)"
  by (simp add: adjust_formatting_eq cong: map_cong)

lemma prepare_frame_eq:
  "prepare_frame lib df w =
     (w\<lparr>heap := (heap w)(df := (heap w df)\<lparr>df_columns :=
          map (\<lambda>c. c\<lparr>col_name := normalize_name (col_name c),
                      col_data := astype_str lib (col_data c)\<rparr>)
              (df_columns (heap w df))\<rparr>)\<rparr>, None)"
  by (simp add: prepare_frame_def Let_def adjust_all_columns rename_columns_def comp_def)

lemma heap_print_msgs: "heap (print_msgs ms w) = heap w"
  by (simp add: print_msgs_def)

lemma calls_print_msgs: "calls (print_msgs ms w) = calls w"
  by (simp add: print_msgs_def)

lemma printed_print_msgs: "printed (print_msgs ms w) = printed w @ ms"
  by (simp add: print_msgs_def)

lemma heap_call_db: "heap (fst (call_db raises c w)) = heap w"
  by (simp add: call_db_def)

lemma heap_try_ddl: "heap (try_ddl raises before s done failed w) = heap w"
  by (simp add: try_ddl_def call_db_def print_msgs_def Let_def)

lemma heap_drop_and_create: "heap (drop_and_create raises table_name schema columns drop_flag w) = heap w"
  by (simp add: drop_and_create_def heap_try_ddl)

lemma heap_upload_row:
  "heap (upload_row raises table_name schema columns chunk len_df index row w) = heap w"
  by (simp add: upload_row_def call_db_def print_msgs_def Let_def)

lemma heap_upload_rows:
  "heap (upload_rows raises table_name schema columns chunk len_df irows w) = heap w"
  by (induction irows arbitrary: w) (auto simp: heap_upload_row)

lemma upload_to_sql_heap:
  "heap (fst (upload_to_sql raises lib df table_name schema drop_flag chunk w)) =
     (heap w)(df := (heap w df)\<lparr>df_columns :=
        map (\<lambda>c. c\<lparr>col_name := normalize_name (col_name c),
                    col_data := astype_str lib (col_data c)\<rparr>)
            (df_columns (heap w df))\<rparr>)"
  by (simp add: upload_to_sql_def prepare_frame_eq Let_def call_db_def heap_print_msgs
      heap_upload_rows heap_drop_and_create split: prod.splits)







section \<open>Date and time columns\<close>

lemma zero_pad_eval:
  "zero_pad 4 2024 = [50, 48, 50, 52]" "zero_pad 2 (Suc 0) = [48, 49]" "zero_pad 2 15 = [49, 53]"
  "zero_pad 2 0 = [48, 48]"
  by code_simp+

text \<open>
  Claim C4. Every value is turned into its string, but a \<open>datetime64[ns, UTC]\<close> column
  is not written as \<open>YYYY-MM-DD\<close>: the column is converted with \<open>astype(str)\<close> before
  the dtype test, so the test never finds it and \<open>strftime\<close> is never applied. The
  timestamp 15 January 2024 is stored as \<open>2024-01-15 00:00:00+00:00\<close>, where
  \<open>strftime("%Y-%m-%d")\<close> gives \<open>2024-01-15\<close>.
\<close>

theorem datetime_column_keeps_default_rendering:
  "heap (fst (upload_to_sql raises (pandas_lib render_float) 0 table_name schema drop_flag
            chunk_print_size (world_with dated_frame))) 0
     = \<lparr>df_columns =
          [\<lparr>col_name = ascii ''report_date'',
            col_data = Object [PyStr (ascii ''2024-01-15 00:00:00+00:00'')]\<rparr>],
        df_nrows = 1\<rparr>
   \<and> strftime_ymd (pandas_lib render_float) (Timestamp 2024 1 15 0 0 0) = ascii ''2024-01-15''"
  by (simp add: upload_to_sql_heap world_with_def dated_frame_def normalize_name_def
      astype_str_def pandas_lib_def py_replace_def py_lower_def lower_cp_def zero_pad_eval
      ascii_def)


section \<open>Rows that fail\<close>

lemma calls_upload_row:
  "chunk \<noteq> 0 \<Longrightarrow>
     calls (upload_row raises table_name schema columns chunk len_df index row w) =
       calls w @ [Execute (Insert schema table_name columns row)]"
  by (simp add: upload_row_def call_db_def print_msgs_def Let_def)

lemma calls_upload_rows:
  "chunk \<noteq> 0 \<Longrightarrow>
     calls (upload_rows raises table_name schema columns chunk len_df (enumerate n rows) w) =
       calls w @ map (\<lambda>r. Execute (Insert schema table_name columns r)) rows"
  by (induction rows arbitrary: n w) (simp_all add: calls_upload_row)

lemma printed_upload_row:
  "set (printed w) \<subseteq> set (printed (upload_row raises table_name schema columns chunk len_df index row w))"
  by (auto simp: upload_row_def call_db_def print_msgs_def Let_def)

lemma printed_upload_rows:
  "set (printed w) \<subseteq> set (printed (upload_rows raises table_name schema columns chunk len_df irows w))"
proof (induction irows arbitrary: w)
  case Nil
  show ?case by simp
next
  case (Cons ir irows)
  obtain index row where ir: "ir = (index, row)" by (cases ir)
  show ?case
    unfolding ir upload_rows.simps
    using printed_upload_row Cons.IH by (rule subset_trans)
qed

lemma upload_row_logs_failure:
  "chunk \<noteq> 0 \<Longrightarrow> raises (calls w) (Execute (Insert schema table_name columns row)) \<Longrightarrow>
     CouldNotUpload index
       \<in> set (printed (upload_row raises table_name schema columns chunk len_df index row w))"
  by (simp add: upload_row_def call_db_def print_msgs_def Let_def)

lemma upload_rows_log_failure:
  "chunk \<noteq> 0 \<Longrightarrow> k < length rows \<Longrightarrow>
   raises (calls w @ map (\<lambda>r. Execute (Insert schema table_name columns r)) (take k rows))
          (Execute (Insert schema table_name columns (rows ! k))) \<Longrightarrow>
     CouldNotUpload (n + k)
       \<in> set (printed (upload_rows raises table_name schema columns chunk len_df (enumerate n rows) w))"
proof (induction rows arbitrary: n k w)
  case Nil
  then show ?case by simp
next
  case (Cons r rows)
  let ?w' = "upload_row raises table_name schema columns chunk len_df n r w"
  show ?case
  proof (cases k)
    case 0
    with Cons.prems have "CouldNotUpload n \<in> set (printed ?w')"
      by (simp add: upload_row_logs_failure)
    then show ?thesis
      using 0 printed_upload_rows [of ?w' raises table_name schema columns chunk len_df
          "enumerate (Suc n) rows"]
      by auto
  next
    case (Suc j)
    have c: "calls ?w' = calls w @ [Execute (Insert schema table_name columns r)]"
      using Cons.prems(1) by (rule calls_upload_row)
    have "CouldNotUpload (Suc n + j)
        \<in> set (printed (upload_rows raises table_name schema columns chunk len_df
                          (enumerate (Suc n) rows) ?w'))"
      using Cons.prems Suc by (intro Cons.IH) (simp_all add: c)
    then show ?thesis
      using Suc by simp
  qed
qed

text \<open>
  Claim C8. For a non-zero progress interval, whatever the database raises: the calls
  made after the table is set up are one insert for every row, in order, and then the
  commit, so a row that fails stops neither the rows after it nor the commit, and every
  row whose insert raises is logged with its index.
\<close>

theorem row_failure_does_not_stop_the_upload:
  assumes "chunk_print_size \<noteq> 0"
  shows
    "(let w1 = fst (prepare_frame lib df
                     (print_msgs [WritingDataFrame, TableNameLine schema table_name] w));
          columns = map col_name (df_columns (heap w1 df));
          rows = rows_of (heap w1 df);
          insert_row = (\<lambda>r. Execute (Insert schema table_name columns r));
          before = calls (drop_and_create raises table_name schema columns drop_flag w1);
          final = fst (upload_to_sql raises lib df table_name schema drop_flag chunk_print_size w)
      in calls final = before @ map insert_row rows @ [Commit]
         \<and> (\<forall>k < length rows.
               raises (before @ map insert_row (take k rows)) (insert_row (rows ! k)) \<longrightarrow>
               CouldNotUpload k \<in> set (printed final)))"
proof -
  define w0 where "w0 = print_msgs [WritingDataFrame, TableNameLine schema table_name] w"
  define w1 where "w1 = fst (prepare_frame lib df w0)"
  define columns where "columns = map col_name (df_columns (heap w1 df))"
  define rows where "rows = rows_of (heap w1 df)"
  define w2 where "w2 = drop_and_create raises table_name schema columns drop_flag w1"
  define w3 where "w3 = print_msgs [WritingRows (df_nrows (heap w2 df)), Uploading] w2"
  define w4 where "w4 = upload_rows raises table_name schema columns chunk_print_size
      (df_nrows (heap w1 df)) (enumerate 0 rows) w3"
  define final where
    "final = fst (upload_to_sql raises lib df table_name schema drop_flag chunk_print_size w)"
  have p: "prepare_frame lib df w0 = (w1, None)"
    by (simp add: w1_def prepare_frame_eq)
  have h3: "heap w3 df = heap w1 df"
    by (simp add: w3_def w2_def heap_print_msgs heap_drop_and_create)
  have fin: "final = (let (w5, r) = call_db raises Commit w4
                      in if r then w5 else print_msgs [DoneAll] w5)"
    unfolding final_def upload_to_sql_def w0_def [symmetric] p
    by (simp add: Let_def columns_def [symmetric] w2_def [symmetric] w3_def [symmetric]
        h3 rows_def [symmetric] w4_def [symmetric] split: prod.splits)
  have c3: "calls w3 = calls w2"
    by (simp add: w3_def calls_print_msgs)
  have c4: "calls w4 = calls w2 @ map (\<lambda>r. Execute (Insert schema table_name columns r)) rows"
    unfolding w4_def using assms by (simp add: calls_upload_rows c3)
  have cf: "calls final = calls w4 @ [Commit]"
    by (simp add: fin call_db_def print_msgs_def)
  have pf: "set (printed w4) \<subseteq> set (printed final)"
    by (auto simp: fin call_db_def print_msgs_def)
  have logged: "CouldNotUpload k \<in> set (printed final)"
    if "k < length rows"
      and "raises (calls w2 @ map (\<lambda>r. Execute (Insert schema table_name columns r)) (take k rows))
             (Execute (Insert schema table_name columns (rows ! k)))" for k
  proof -
    have "CouldNotUpload (0 + k) \<in> set (printed w4)"
      unfolding w4_def using assms that by (intro upload_rows_log_failure) (simp_all add: c3)
    then show ?thesis using pf by auto
  qed
  show ?thesis
    unfolding Let_def w0_def [symmetric] w1_def [symmetric] columns_def [symmetric]
      rows_def [symmetric] w2_def [symmetric] final_def [symmetric]
    using cf c4 logged by simp
qed


text \<open>
  With a zero interval the progress test raises inside the \<open>try\<close> for every row: the
  handler logs the row and no insert is made.
\<close>

lemma zero_interval_inserts_nothing:
  "calls (upload_rows raises table_name schema columns 0 len_df irows w) = calls w"
  by (induction irows arbitrary: w) (auto simp: upload_row_def print_msgs_def)

text \<open>
  Three rows, of which the database refuses the second: all three are inserted, the
  commit follows, and row 1 is logged.
\<close>

lemma str_nat_digit: "n < 10 \<Longrightarrow> str_nat n = [48 + n]"
  by (simp add: str_nat.simps)

theorem row_failure_does_not_stop_the_upload_witness:
  "calls (fst (upload_to_sql refuses_b (pandas_lib (\<lambda>x. [])) 0 (ascii ''t'') (ascii ''dbo'')
                 False 50 (world_with three_rows)))
     = [Execute (Insert (ascii ''dbo'') (ascii ''t'') [ascii ''area_name'', ascii ''count'']
                   [PyStr (ascii ''a''), PyStr (ascii ''7'')]),
        Execute (Insert (ascii ''dbo'') (ascii ''t'') [ascii ''area_name'', ascii ''count'']
                   [PyStr (ascii ''b''), PyStr (ascii ''8'')]),
        Execute (Insert (ascii ''dbo'') (ascii ''t'') [ascii ''area_name'', ascii ''count'']
                   [PyStr (ascii ''c''), PyStr (ascii ''9'')]),
        Commit]
   \<and> CouldNotUpload 1
       \<in> set (printed (fst (upload_to_sql refuses_b (pandas_lib (\<lambda>x. [])) 0 (ascii ''t'')
                              (ascii ''dbo'') False 50 (world_with three_rows))))"
proof -
  let ?lib = "pandas_lib (\<lambda>x. [])"
  let ?w0 = "print_msgs [WritingDataFrame, TableNameLine (ascii ''dbo'') (ascii ''t'')]
               (world_with three_rows)"
  let ?w1 = "fst (prepare_frame ?lib 0 ?w0)"
  have frame: "heap ?w1 0 =
      \<lparr>df_columns =
         [\<lparr>col_name = ascii ''area_name'',
           col_data = Object [PyStr (ascii ''a''), PyStr (ascii ''b''), PyStr (ascii ''c'')]\<rparr>,
          \<lparr>col_name = ascii ''count'',
           col_data = Object [PyStr (ascii ''7''), PyStr (ascii ''8''), PyStr (ascii ''9'')]\<rparr>],
       df_nrows = 3\<rparr>"
    by (simp add: prepare_frame_eq print_msgs_def world_with_def three_rows_def
        normalize_name_def astype_str_def py_replace_def py_lower_def lower_cp_def ascii_def
        str_int_def str_nat_digit)
  have rows: "rows_of (heap ?w1 0) =
      [[PyStr (ascii ''a''), PyStr (ascii ''7'')],
       [PyStr (ascii ''b''), PyStr (ascii ''8'')],
       [PyStr (ascii ''c''), PyStr (ascii ''9'')]]"
    unfolding frame by (simp add: rows_of_def upt_rec)
  have before: "calls (drop_and_create refuses_b (ascii ''t'') (ascii ''dbo'')
                         (map col_name (df_columns (heap ?w1 0))) False ?w1) = []"
    by (simp add: drop_and_create_def prepare_frame_eq print_msgs_def world_with_def)
  have chunk: "(50 :: int) \<noteq> 0"
    by simp
  note th = row_failure_does_not_stop_the_upload
    [OF chunk, of ?lib 0 "ascii ''dbo''" "ascii ''t''" "world_with three_rows" refuses_b False,
     unfolded Let_def before rows]
  have second: "refuses_b
      ([] @ map (\<lambda>r. Execute (Insert (ascii ''dbo'') (ascii ''t'')
                            (map col_name (df_columns (heap ?w1 0))) r))
              (take 1 [[PyStr (ascii ''a''), PyStr (ascii ''7'')],
                       [PyStr (ascii ''b''), PyStr (ascii ''8'')],
                       [PyStr (ascii ''c''), PyStr (ascii ''9'')]]))
      (Execute (Insert (ascii ''dbo'') (ascii ''t'') (map col_name (df_columns (heap ?w1 0)))
         ([[PyStr (ascii ''a''), PyStr (ascii ''7'')],
           [PyStr (ascii ''b''), PyStr (ascii ''8'')],
           [PyStr (ascii ''c''), PyStr (ascii ''9'')]] ! 1)))"
    by (simp add: refuses_b_def)
  have one: "(1::nat) < length [[PyStr (ascii ''a''), PyStr (ascii ''7'')],
                       [PyStr (ascii ''b''), PyStr (ascii ''8'')],
                       [PyStr (ascii ''c''), PyStr (ascii ''9'' :: pystr) :: timestamp pyobj]]"
    by simp
  from th have c: "calls (fst (upload_to_sql refuses_b ?lib 0 (ascii ''t'') (ascii ''dbo'')
                 False 50 (world_with three_rows)))
     = [] @ map (\<lambda>r. Execute (Insert (ascii ''dbo'') (ascii ''t'')
                            (map col_name (df_columns (heap ?w1 0))) r))
              [[PyStr (ascii ''a''), PyStr (ascii ''7'')],
               [PyStr (ascii ''b''), PyStr (ascii ''8'')],
               [PyStr (ascii ''c''), PyStr (ascii ''9'')]] @ [Commit]"
    by (rule conjunct1)
  from th one second have l: "CouldNotUpload 1
       \<in> set (printed (fst (upload_to_sql refuses_b ?lib 0 (ascii ''t'')
                              (ascii ''dbo'') False 50 (world_with three_rows))))"
    by blast
  show ?thesis
    using c l by (simp add: frame)
qed

end
